theory Spec2Isabelle
  imports Main
begin

section \<open>Embed Swiper Monitor: data model\<close>

text \<open>
  The monitor (\<^verbatim>\<open>embed_slackbot.py\<close>) polls a database for "swiper offline" events and
  forwards each one to Slack. Everything outside the process (the database driver, the
  Slack client, the clock, signal delivery) is an explicit argument of the model: the
  outcome of every external call is given by a script, and the functions below compute
  what the Python does with those outcomes. Python's unbounded integers are \<open>int\<close>.
  Logging and the fixed delays between retries have no effect on any value computed
  here and are left out; the sleeps of the monitor loop are recorded as events.
\<close>

type_synonym datetime = int
  \<comment> \<open>a \<^verbatim>\<open>datetime.datetime\<close>, as a count of microseconds\<close>

text \<open>The dataclass \<^verbatim>\<open>Metrics\<close>; \<^verbatim>\<open>Metrics()\<close> is \<open>Metrics0\<close>.\<close>

record Metrics =
  notifications_sent :: int
  failed_notifications :: int
  db_connection_attempts :: int
  db_connection_failures :: int
  last_successful_check :: "datetime option"

definition Metrics0 :: Metrics where
  "Metrics0 = \<lparr>notifications_sent = 0, failed_notifications = 0,
     db_connection_attempts = 0, db_connection_failures = 0,
     last_successful_check = None\<rparr>"

text \<open>One row of the offline-events query (a \<^verbatim>\<open>pyodbc.Row\<close>).\<close>

record row =
  swiper_description :: string
  user_name :: string
  comment :: string
  log_datetime :: datetime
  Days_Offline :: int

text \<open>
  A \<^verbatim>\<open>pyodbc.Connection\<close>, reduced to how its calls turn out:
  \<^item> \<open>select_one_ok\<close>: the health check's \<^verbatim>\<open>cursor(); execute("SELECT 1"); fetchone();
    close(); close()\<close> runs through without raising;
  \<^item> \<open>cursor_ok\<close>: \<^verbatim>\<open>conn.cursor()\<close> in the monitor loop does not raise;
  \<^item> \<open>run_query\<close>: \<^verbatim>\<open>cursor.execute(query, last_check); cursor.fetchall()\<close> for a given
    lower bound: the rows, or \<open>None\<close> when either call raises;
  \<^item> \<open>commit_ok\<close>: leaving the \<^verbatim>\<open>with conn:\<close> block (the commit) does not raise.
\<close>

record connection =
  select_one_ok :: bool
  cursor_ok :: bool
  run_query :: "datetime \<Rightarrow> row list option"
  commit_ok :: bool

section \<open>Database connection\<close>

text \<open>
  \<^verbatim>\<open>get_database_connection(connection_string, max_retries=3, retry_delay=5)\<close>.
  \<open>pyodbc_connect i\<close> is the outcome of the call \<^verbatim>\<open>pyodbc.connect(connection_string)\<close>
  made in iteration \<open>i\<close> of the loop: \<open>Some conn\<close>, or \<open>None\<close> when it raises (the
  handler is \<^verbatim>\<open>except Exception\<close>).

  The loop \<^verbatim>\<open>for attempt in range(max_retries)\<close> is \<open>connect_attempts\<close>, started at
  attempt 0; when the range is exhausted the Python function falls off its end and
  returns \<^verbatim>\<open>None\<close>. The result is the returned value (\<open>None\<close> is Python's \<^verbatim>\<open>None\<close>),
  the metrics afterwards, and the number of \<^verbatim>\<open>pyodbc.connect\<close> calls that were made.
\<close>

function connect_attempts ::
  "(nat \<Rightarrow> connection option) \<Rightarrow> int \<Rightarrow> nat \<Rightarrow> Metrics \<Rightarrow> connection option \<times> Metrics \<times> nat"
where
  "connect_attempts pyodbc_connect max_retries attempt m =
     (if int attempt < max_retries then
        (case pyodbc_connect attempt of
           Some conn \<Rightarrow> (Some conn, m, attempt + 1)
         | None \<Rightarrow>
             if int attempt < max_retries - 1
             then connect_attempts pyodbc_connect max_retries (attempt + 1) m
             else (None, m\<lparr>db_connection_failures := db_connection_failures m + 1\<rparr>,
                   attempt + 1))
      else (None, m, attempt))"
  by pat_completeness auto
termination
  by (relation "measure (\<lambda>(c, max_retries, attempt, m). nat (max_retries - int attempt))") auto

declare connect_attempts.simps [simp del]

definition get_database_connection ::
  "(nat \<Rightarrow> connection option) \<Rightarrow> int \<Rightarrow> Metrics \<Rightarrow> connection option \<times> Metrics \<times> nat"
where
  "get_database_connection pyodbc_connect max_retries m =
     connect_attempts pyodbc_connect max_retries 0
       (m\<lparr>db_connection_attempts := db_connection_attempts m + 1\<rparr>)"

section \<open>Health check\<close>

text \<open>
  \<^verbatim>\<open>health_check(connection_string)\<close> returns a Python value: \<^verbatim>\<open>True\<close> (\<open>Some True\<close>),
  \<^verbatim>\<open>False\<close> (\<open>Some False\<close>, from the \<^verbatim>\<open>except Exception\<close> handler) or \<^verbatim>\<open>None\<close>
  (\<open>None\<close>), which is what a Python function returns when control reaches its end: the
  body has no statement after \<^verbatim>\<open>if conn:\<close>. \<open>now\<close> is the value of
  \<^verbatim>\<open>datetime.datetime.now()\<close>.
\<close>

definition health_check ::
  "(nat \<Rightarrow> connection option) \<Rightarrow> datetime \<Rightarrow> Metrics \<Rightarrow> bool option \<times> Metrics"
where
  "health_check pyodbc_connect now m =
     (case get_database_connection pyodbc_connect 3 m of
        (Some conn, m', tries) \<Rightarrow>
          if select_one_ok conn
          then (Some True, m'\<lparr>last_successful_check := Some now\<rparr>)
          else (Some False, m')
      | (None, m', tries) \<Rightarrow> (None, m'))"

text \<open>Python's truth test on such a value: \<^verbatim>\<open>None\<close> and \<^verbatim>\<open>False\<close> are false.\<close>

definition truthy :: "bool option \<Rightarrow> bool" where
  "truthy v = (v = Some True)"

section \<open>Slack notification\<close>

text \<open>
  \<^verbatim>\<open>send_slack_notification(slack_client, channel, message, max_retries=3, retry_delay=5)\<close>.
  \<open>chat_postMessage i\<close> is the outcome of the call made in iteration \<open>i\<close>: the message
  is posted, the call raises \<^verbatim>\<open>SlackApiError\<close>, or it raises an exception of another
  class (the client raises those for transport failures). The handler is
  \<^verbatim>\<open>except SlackApiError\<close>, so an exception of another class leaves the function.
  The result is how the call ends (a returned Python value, or an exception), the
  metrics afterwards, and the number of \<^verbatim>\<open>chat_postMessage\<close> calls that were made.
\<close>

datatype post_outcome = Posted | SlackApiError | OtherException

datatype 'a outcome = Returns 'a | Raises

function send_attempts ::
  "(nat \<Rightarrow> post_outcome) \<Rightarrow> int \<Rightarrow> nat \<Rightarrow> Metrics \<Rightarrow> bool option outcome \<times> Metrics \<times> nat"
where
  "send_attempts chat_postMessage max_retries attempt m =
     (if int attempt < max_retries then
        (case chat_postMessage attempt of
           Posted \<Rightarrow>
             (Returns (Some True), m\<lparr>notifications_sent := notifications_sent m + 1\<rparr>,
              attempt + 1)
         | SlackApiError \<Rightarrow>
             if int attempt < max_retries - 1
             then send_attempts chat_postMessage max_retries (attempt + 1) m
             else (Returns (Some False),
                   m\<lparr>failed_notifications := failed_notifications m + 1\<rparr>, attempt + 1)
         | OtherException \<Rightarrow> (Raises, m, attempt + 1))
      else (Returns None, m, attempt))"
  by pat_completeness auto
termination
  by (relation "measure (\<lambda>(c, max_retries, attempt, m). nat (max_retries - int attempt))") auto

declare send_attempts.simps [simp del]

definition send_slack_notification ::
  "(nat \<Rightarrow> post_outcome) \<Rightarrow> int \<Rightarrow> Metrics \<Rightarrow> bool option outcome \<times> Metrics \<times> nat"
where
  "send_slack_notification chat_postMessage max_retries m =
     send_attempts chat_postMessage max_retries 0 m"

section \<open>Fetching events\<close>

text \<open>
  \<^verbatim>\<open>fetch_offline_events(cursor, last_check)\<close>: the rows of the query bound to
  \<open>last_check\<close>, or the empty list when \<^verbatim>\<open>execute\<close> or \<^verbatim>\<open>fetchall\<close> raises.
\<close>

definition fetch_offline_events :: "connection \<Rightarrow> datetime \<Rightarrow> row list" where
  "fetch_offline_events cursor last_check =
     (case run_query cursor last_check of Some rows \<Rightarrow> rows | None \<Rightarrow> [])"

section \<open>The monitor loop\<close>

text \<open>
  The loop's state: its local variable \<open>last_check\<close> (the watermark), the two module
  globals \<open>metrics\<close> and \<open>shutdown_flag\<close>, and a log of the calls the coordinating thread
  has made, in order. \<open>Fetch b rows\<close> records \<^verbatim>\<open>fetch_offline_events(cursor, b)\<close> and the
  rows it returned; \<open>Submit r\<close> records \<^verbatim>\<open>pool.submit(send_slack_notification, ...)\<close>
  for the message formatted from row \<open>r\<close>; \<open>Sleep\<close> is \<^verbatim>\<open>time.sleep(poll_interval)\<close>;
  \<open>PoolShutdown\<close> is leaving the \<^verbatim>\<open>with ThreadPoolExecutor\<close> block. The submitted sends
  run on the pool's threads, outside this sequential model.
\<close>

datatype event =
    HealthCheck | Connect | Fetch datetime "row list" | Submit row
  | SaveMetrics | Sleep | PoolShutdown

record monitor_state =
  last_check :: datetime
  metrics :: Metrics
  shutdown_flag :: bool
  events :: "event list"

definition log_event :: "event \<Rightarrow> monitor_state \<Rightarrow> monitor_state" where
  "log_event ev st = st\<lparr>events := events st @ [ev]\<rparr>"

definition signal_handler :: "monitor_state \<Rightarrow> monitor_state" where
  "signal_handler st = st\<lparr>shutdown_flag := True\<rparr>"

text \<open>
  \<^verbatim>\<open>time.sleep(poll_interval)\<close>; \<open>signal\<close> says whether SIGTERM or SIGINT is delivered
  while the thread sleeps, in which case the handler runs and the sleep then completes.
\<close>

definition time_sleep :: "bool \<Rightarrow> monitor_state \<Rightarrow> monitor_state" where
  "time_sleep signal st =
     (let st' = log_event Sleep st in if signal then signal_handler st' else st')"

definition save_metrics :: "monitor_state \<Rightarrow> monitor_state" where
  "save_metrics st = log_event SaveMetrics st"

text \<open>What the world does during one pass through the loop body.\<close>

record cycle_env =
  hc_connect :: "nat \<Rightarrow> connection option"
    \<comment> \<open>the \<^verbatim>\<open>pyodbc.connect\<close> calls made by \<^verbatim>\<open>health_check\<close>\<close>
  hc_now :: datetime
    \<comment> \<open>the clock read by \<^verbatim>\<open>health_check\<close>\<close>
  db_connect :: "nat \<Rightarrow> connection option"
    \<comment> \<open>the \<^verbatim>\<open>pyodbc.connect\<close> calls made by the loop's own \<^verbatim>\<open>get_database_connection\<close>\<close>
  signal_in_work :: bool
    \<comment> \<open>a termination signal arrives inside the \<^verbatim>\<open>try\<close> block, outside its sleeps\<close>
  signal_in_skip_sleep :: bool
    \<comment> \<open>a termination signal arrives during the sleep that precedes \<^verbatim>\<open>continue\<close>\<close>
  signal_in_sleep :: bool
    \<comment> \<open>a termination signal arrives during the sleep of the \<^verbatim>\<open>finally\<close> block\<close>

text \<open>The \<^verbatim>\<open>for row in rows\<close> loop, carrying \<open>max_log_datetime\<close>.\<close>

fun submit_rows :: "row list \<Rightarrow> datetime \<Rightarrow> monitor_state \<Rightarrow> datetime \<times> monitor_state" where
  "submit_rows [] max_log_datetime st = (max_log_datetime, st)"
| "submit_rows (r # rows) max_log_datetime st =
     submit_rows rows
       (if log_datetime r > max_log_datetime then log_datetime r else max_log_datetime)
       (log_event (Submit r) st)"

text \<open>
  The \<^verbatim>\<open>try\<close> block of the loop body. A \<^verbatim>\<open>continue\<close> and an exception caught by
  \<^verbatim>\<open>except Exception\<close> both end the block; the \<^verbatim>\<open>finally\<close> block follows in
  \<open>poll_cycle\<close>. The \<^verbatim>\<open>except KeyboardInterrupt\<close> clause of the \<^verbatim>\<open>finally\<close> block has no
  branch here: \<^verbatim>\<open>main\<close> installs \<^verbatim>\<open>signal_handler\<close> for SIGINT before the loop starts,
  so SIGINT sets the flag like SIGTERM and raises nothing.
\<close>

definition try_block :: "cycle_env \<Rightarrow> monitor_state \<Rightarrow> monitor_state" where
  "try_block e st0 =
     (let st = (if signal_in_work e then signal_handler st0 else st0) in
      case health_check (hc_connect e) (hc_now e) (metrics st) of (healthy, m1) \<Rightarrow>
        let st1 = log_event HealthCheck (st\<lparr>metrics := m1\<rparr>) in
        if \<not> truthy healthy then time_sleep (signal_in_skip_sleep e) st1
        else
          case get_database_connection (db_connect e) 3 m1 of (conn, m2, tries) \<Rightarrow>
            let st2 = log_event Connect (st1\<lparr>metrics := m2\<rparr>) in
            (case conn of
               None \<Rightarrow> time_sleep (signal_in_skip_sleep e) st2
             | Some c \<Rightarrow>
                 if \<not> cursor_ok c then st2
                 else
                   let rows = fetch_offline_events c (last_check st2);
                       st3 = log_event (Fetch (last_check st2) rows) st2;
                       st4 = (if rows \<noteq> [] then
                                (case submit_rows rows (last_check st3) st3 of
                                   (max_log_datetime, st') \<Rightarrow>
                                     st'\<lparr>last_check := max_log_datetime\<rparr>)
                              else st3)
                   in if commit_ok c then save_metrics st4 else st4))"

definition poll_cycle :: "cycle_env \<Rightarrow> monitor_state \<Rightarrow> monitor_state" where
  "poll_cycle e st = time_sleep (signal_in_sleep e) (try_block e st)"

text \<open>
  \<^verbatim>\<open>while not shutdown_flag:\<close> over a script of cycles. The loop runs for as long as
  no signal arrives, so the script is also its fuel: \<open>None\<close> means that the loop is
  still running when the script ends.
\<close>

fun monitor_loop :: "cycle_env list \<Rightarrow> monitor_state \<Rightarrow> monitor_state option" where
  "monitor_loop [] st = (if shutdown_flag st then Some st else None)"
| "monitor_loop (e # es) st =
     (if shutdown_flag st then Some st else monitor_loop es (poll_cycle e st))"

definition one_minute :: int where
  "one_minute = 60000000"

text \<open>
  \<^verbatim>\<open>monitor_swiper_offline_events\<close>, entered with the globals \<open>m\<close> and \<open>flag\<close> and the
  calls \<open>evs\<close> made so far; \<open>now\<close> is the clock at entry.
\<close>

definition monitor_swiper_offline_events ::
  "datetime \<Rightarrow> cycle_env list \<Rightarrow> Metrics \<Rightarrow> bool \<Rightarrow> event list \<Rightarrow> monitor_state option"
where
  "monitor_swiper_offline_events now cycles m flag evs =
     map_option (log_event PoolShutdown)
       (monitor_loop cycles
          \<lparr>last_check = now - one_minute, metrics = m, shutdown_flag = flag, events = evs\<rparr>)"

section \<open>Entry point\<close>

text \<open>
  \<^verbatim>\<open>main()\<close>. \<open>startup_ok\<close>: creating the log directory, the logger, reading the
  configuration and building the Slack client all succeed (otherwise an exception or
  \<^verbatim>\<open>sys.exit(1)\<close> leaves the \<^verbatim>\<open>try\<close> block). The result is the log of calls made up to
  process exit; the \<^verbatim>\<open>finally\<close> block's \<^verbatim>\<open>save_metrics()\<close> is its last entry.
\<close>

record main_env =
  startup_ok :: bool
  signal_at_startup :: bool
  main_connect :: "nat \<Rightarrow> connection option"
  main_now :: datetime
  monitor_now :: datetime
  cycles :: "cycle_env list"

definition main :: "main_env \<Rightarrow> event list option" where
  "main env =
     (if \<not> startup_ok env then Some [SaveMetrics]
      else
        case health_check (main_connect env) (main_now env) Metrics0 of (healthy, m1) \<Rightarrow>
          if \<not> truthy healthy then Some [HealthCheck, SaveMetrics]
          else
            map_option (\<lambda>st. events (save_metrics st))
              (monitor_swiper_offline_events (monitor_now env) (cycles env) m1
                 (signal_at_startup env) [HealthCheck]))"

section \<open>Observations and example scripts\<close>

text \<open>The calls made during one pass through the loop body, started in state \<open>st\<close>.\<close>

definition cycle_events :: "cycle_env \<Rightarrow> monitor_state \<Rightarrow> event list" where
  "cycle_events e st = drop (length (events st)) (events (poll_cycle e st))"

text \<open>Concrete scripts on which the theorems below are exercised.\<close>

definition example_row :: "datetime \<Rightarrow> row" where
  "example_row t = \<lparr>swiper_description = ''Skee Ball'', user_name = ''tech'',
     comment = ''Swiper placed Offline'', log_datetime = t, Days_Offline = 0\<rparr>"

definition example_conn :: connection where
  "example_conn = \<lparr>select_one_ok = True, cursor_ok = True,
     run_query = (\<lambda>b. Some (filter (\<lambda>r. log_datetime r > b) [example_row 200, example_row 150])),
     commit_ok = True\<rparr>"

definition broken_query_conn :: connection where
  "broken_query_conn = \<lparr>select_one_ok = True, cursor_ok = True,
     run_query = (\<lambda>b. None), commit_ok = True\<rparr>"

definition always_connect :: "nat \<Rightarrow> connection option" where
  "always_connect i = Some example_conn"

definition never_connect :: "nat \<Rightarrow> connection option" where
  "never_connect i = None"

definition second_try :: "nat \<Rightarrow> connection option" where
  "second_try i = (if i = 0 then None else Some example_conn)"

definition api_errors_then_other :: "nat \<Rightarrow> post_outcome" where
  "api_errors_then_other i = (if i < 2 then SlackApiError else OtherException)"

definition transport_down :: "nat \<Rightarrow> post_outcome" where
  "transport_down i = OtherException"

definition always_api_error :: "nat \<Rightarrow> post_outcome" where
  "always_api_error i = SlackApiError"

definition posted_on_third :: "nat \<Rightarrow> post_outcome" where
  "posted_on_third i = (if i < 2 then SlackApiError else Posted)"

definition example_cycle :: "bool \<Rightarrow> cycle_env" where
  "example_cycle sig = \<lparr>hc_connect = always_connect, hc_now = 1000,
     db_connect = always_connect, signal_in_work = False,
     signal_in_skip_sleep = False, signal_in_sleep = sig\<rparr>"

definition broken_query_cycle :: cycle_env where
  "broken_query_cycle = \<lparr>hc_connect = always_connect, hc_now = 1000,
     db_connect = (\<lambda>i. Some broken_query_conn), signal_in_work = False,
     signal_in_skip_sleep = False, signal_in_sleep = False\<rparr>"

definition down_cycle :: "bool \<Rightarrow> cycle_env" where
  "down_cycle sig = \<lparr>hc_connect = never_connect, hc_now = 1000,
     db_connect = never_connect, signal_in_work = False,
     signal_in_skip_sleep = sig, signal_in_sleep = False\<rparr>"

definition example_state :: monitor_state where
  "example_state = \<lparr>last_check = 100, metrics = Metrics0, shutdown_flag = False, events = []\<rparr>"

definition unreachable_main :: main_env where
  "unreachable_main = \<lparr>startup_ok = True, signal_at_startup = False,
     main_connect = always_connect, main_now = 900, monitor_now = 60000100,
     cycles = [down_cycle True, example_cycle False]\<rparr>"

definition example_main :: main_env where
  "example_main = \<lparr>startup_ok = True, signal_at_startup = False,
     main_connect = always_connect, main_now = 900, monitor_now = 60000100,
     cycles = [example_cycle False, example_cycle True, example_cycle False]\<rparr>"

section \<open>The retry loop of the connect operation\<close>

lemma connect_attempts_none:
  "\<not> int a < mr \<Longrightarrow> connect_attempts pc mr a m = (None, m, a)"
  by (subst connect_attempts.simps) simp

lemma connect_attempts_attempts_field:
  "connect_attempts pc mr a m = (r, m', t) \<Longrightarrow>
     db_connection_attempts m' = db_connection_attempts m"
proof (induction pc mr a m rule: connect_attempts.induct)
  case (1 pc mr a m)
  then show ?case
    by (subst (asm) (2) connect_attempts.simps) (auto split: if_splits option.splits)
qed

lemma connect_attempts_tries:
  "connect_attempts pc mr a m = (r, m', t) \<Longrightarrow>
     a \<le> t \<and> (int a < mr \<longrightarrow> a < t \<and> int t \<le> mr)"
proof (induction pc mr a m rule: connect_attempts.induct)
  case (1 pc mr a m)
  then show ?case
    by (subst (asm) (2) connect_attempts.simps) (auto split: if_splits option.splits)
qed

lemma connect_attempts_all_fail:
  "int a < mr \<Longrightarrow> (\<forall>i. a \<le> i \<and> int i < mr \<longrightarrow> pc i = None) \<Longrightarrow>
     connect_attempts pc mr a m =
       (None, m\<lparr>db_connection_failures := db_connection_failures m + 1\<rparr>, nat mr)"
proof (induction pc mr a m rule: connect_attempts.induct)
  case (1 pc mr a m)
  have n: "pc a = None" using "1.prems" by simp
  show ?case
  proof (cases "int a < mr - 1")
    case True
    have "connect_attempts pc mr (a + 1) m =
        (None, m\<lparr>db_connection_failures := db_connection_failures m + 1\<rparr>, nat mr)"
      using "1.IH"[OF "1.prems"(1) n True] True "1.prems"(2) by auto
    then show ?thesis using "1.prems"(1) n True by (subst connect_attempts.simps) simp
  next
    case False
    then have "a + 1 = nat mr" using "1.prems"(1) by linarith
    then show ?thesis using "1.prems"(1) n False by (subst connect_attempts.simps) simp
  qed
qed

lemma connect_attempts_succeeds_at:
  "a \<le> k \<Longrightarrow> int k < mr \<Longrightarrow> pc k = Some c \<Longrightarrow> (\<forall>i. a \<le> i \<and> i < k \<longrightarrow> pc i = None) \<Longrightarrow>
     connect_attempts pc mr a m = (Some c, m, k + 1)"
proof (induction pc mr a m rule: connect_attempts.induct)
  case (1 pc mr a m)
  show ?case
  proof (cases "a = k")
    case True
    then show ?thesis using "1.prems" by (subst connect_attempts.simps) simp
  next
    case False
    then have lt: "a < k" using "1.prems"(1) by simp
    then have n: "pc a = None" using "1.prems"(4) by simp
    have b: "int a < mr" "int a < mr - 1" using lt "1.prems"(2) by auto
    have "connect_attempts pc mr (a + 1) m = (Some c, m, k + 1)"
      using "1.IH"[OF b(1) n b(2)] lt "1.prems" by auto
    then show ?thesis using b n by (subst connect_attempts.simps) simp
  qed
qed

lemma connect_attempts_result_from_script:
  "connect_attempts pc mr a m = (Some c, m', t) \<Longrightarrow> \<exists>i. pc i = Some c"
proof (induction pc mr a m rule: connect_attempts.induct)
  case (1 pc mr a m)
  then show ?case
    by (subst (asm) (2) connect_attempts.simps) (auto split: if_splits option.splits)
qed

lemma connect_attempts_map:
  "connect_attempts (\<lambda>i. map_option f (pc i)) mr a m =
     (case connect_attempts pc mr a m of (r, m', t) \<Rightarrow> (map_option f r, m', t))"
proof (induction pc mr a m rule: connect_attempts.induct)
  case (1 pc mr a m)
  show ?case
  proof (cases "int a < mr")
    case False
    then show ?thesis by (simp add: connect_attempts_none)
  next
    case True
    show ?thesis
    proof (cases "pc a")
      case (Some c)
      then show ?thesis using True
        by (subst connect_attempts.simps, subst (2) connect_attempts.simps) simp
    next
      case None
      show ?thesis
      proof (cases "int a < mr - 1")
        case T2: True
        from "1.IH"[OF True None T2] show ?thesis using True None T2
          by (subst connect_attempts.simps, subst (2) connect_attempts.simps) simp
      next
        case False
        then show ?thesis using True None
          by (subst connect_attempts.simps, subst (2) connect_attempts.simps) simp
      qed
    qed
  qed
qed

text \<open>
  \<^bold>\<open>C4\<close>, as stated (a call that performs \<open>m\<close> connection attempts raises
  \<open>db_connection_attempts\<close> by \<open>m\<close>), fails: when the first \<^verbatim>\<open>pyodbc.connect\<close> raises and
  the second succeeds, the call has made 2 attempts and the counter has not gone up by 2.
\<close>

theorem attempts_not_counted_per_attempt:
  "snd (snd (get_database_connection second_try 3 Metrics0)) = 2 \<and>
   db_connection_attempts (fst (snd (get_database_connection second_try 3 Metrics0)))
     \<noteq> db_connection_attempts Metrics0 + 2"
  by (simp add: get_database_connection_def connect_attempts.simps second_try_def Metrics0_def)

text \<open>
  \<^bold>\<open>C4\<close>, amended: every call to the connect operation raises \<open>db_connection_attempts\<close>
  by exactly 1, whatever the number of connection attempts it performs; that number lies
  between 1 and \<open>max_retries\<close> when \<open>max_retries\<close> is positive.
\<close>

theorem attempts_counted_per_call:
  "get_database_connection pyodbc_connect max_retries m = (r, m', tries) \<Longrightarrow>
     db_connection_attempts m' = db_connection_attempts m + 1 \<and>
     (0 < max_retries \<longrightarrow> 1 \<le> tries \<and> int tries \<le> max_retries)"
proof -
  assume a: "get_database_connection pyodbc_connect max_retries m = (r, m', tries)"
  then have c: "connect_attempts pyodbc_connect max_retries 0
      (m\<lparr>db_connection_attempts := db_connection_attempts m + 1\<rparr>) = (r, m', tries)"
    by (simp add: get_database_connection_def)
  have "db_connection_attempts m' = db_connection_attempts m + 1"
    using connect_attempts_attempts_field[OF c] by simp
  moreover have "0 < max_retries \<longrightarrow> 1 \<le> tries \<and> int tries \<le> max_retries"
    using connect_attempts_tries[OF c] by auto
  ultimately show ?thesis by simp
qed

lemma second_try_run:
  "get_database_connection second_try 3 Metrics0 =
     (Some example_conn, Metrics0\<lparr>db_connection_attempts := 1\<rparr>, 2)"
  by (simp add: get_database_connection_def connect_attempts.simps second_try_def Metrics0_def)

theorem attempts_counted_per_call_witness:
  "get_database_connection second_try 3 Metrics0 =
     (Some example_conn, Metrics0\<lparr>db_connection_attempts := 1\<rparr>, 2) \<and>
   db_connection_attempts (Metrics0\<lparr>db_connection_attempts := 1\<rparr>)
     = db_connection_attempts Metrics0 + 1 \<and>
   (0 < (3::int) \<and> 1 \<le> (2::nat) \<and> int 2 \<le> (3::int))"
  using attempts_counted_per_call [OF second_try_run] second_try_run by simp

text \<open>
  \<^bold>\<open>C5\<close>: a call with \<open>max_retries\<close> attempts (at least one) that all fail returns
  \<^verbatim>\<open>None\<close> without raising and raises \<open>db_connection_failures\<close> by exactly 1; a call
  whose attempt \<open>k\<close> is the first to succeed returns that connection and leaves
  \<open>db_connection_failures\<close> as it was. In both cases the only other change to the
  metrics is the call's own increment of \<open>db_connection_attempts\<close>.
\<close>

theorem connect_exhausted_or_connected:
  "(0 < max_retries \<and> (\<forall>i. int i < max_retries \<longrightarrow> pyodbc_connect i = None) \<longrightarrow>
      get_database_connection pyodbc_connect max_retries m =
        (None,
         m\<lparr>db_connection_attempts := db_connection_attempts m + 1,
           db_connection_failures := db_connection_failures m + 1\<rparr>,
         nat max_retries))
   \<and> (\<forall>k conn. int k < max_retries \<and> pyodbc_connect k = Some conn
         \<and> (\<forall>i<k. pyodbc_connect i = None) \<longrightarrow>
      get_database_connection pyodbc_connect max_retries m =
        (Some conn, m\<lparr>db_connection_attempts := db_connection_attempts m + 1\<rparr>, k + 1))"
proof (intro conjI allI impI)
  assume h: "0 < max_retries \<and> (\<forall>i. int i < max_retries \<longrightarrow> pyodbc_connect i = None)"
  then have "int 0 < max_retries"
    and "\<forall>i. 0 \<le> i \<and> int i < max_retries \<longrightarrow> pyodbc_connect i = None" by simp_all
  then show "get_database_connection pyodbc_connect max_retries m =
        (None,
         m\<lparr>db_connection_attempts := db_connection_attempts m + 1,
           db_connection_failures := db_connection_failures m + 1\<rparr>,
         nat max_retries)"
    unfolding get_database_connection_def by (subst connect_attempts_all_fail) simp_all
next
  fix k conn
  assume h: "int k < max_retries \<and> pyodbc_connect k = Some conn
         \<and> (\<forall>i<k. pyodbc_connect i = None)"
  then show "get_database_connection pyodbc_connect max_retries m =
        (Some conn, m\<lparr>db_connection_attempts := db_connection_attempts m + 1\<rparr>, k + 1)"
    unfolding get_database_connection_def
    by (subst connect_attempts_succeeds_at[where k = k and c = conn]) simp_all
qed

theorem connect_exhausted_or_connected_witness:
  "get_database_connection never_connect 3 Metrics0 =
     (None, Metrics0\<lparr>db_connection_attempts := 1, db_connection_failures := 1\<rparr>, 3)
   \<and> get_database_connection second_try 3 Metrics0 =
     (Some example_conn, Metrics0\<lparr>db_connection_attempts := 1\<rparr>, 2)"
proof -
  have a: "(0::int) < 3 \<and> (\<forall>i. int i < 3 \<longrightarrow> never_connect i = None)"
    by (simp add: never_connect_def)
  have b: "int 1 < 3 \<and> second_try 1 = Some example_conn \<and> (\<forall>i<1. second_try i = None)"
    by (simp add: second_try_def)
  from a connect_exhausted_or_connected [of 3 never_connect Metrics0]
  have "get_database_connection never_connect 3 Metrics0 =
     (None, Metrics0\<lparr>db_connection_attempts := db_connection_attempts Metrics0 + 1,
        db_connection_failures := db_connection_failures Metrics0 + 1\<rparr>, nat 3)"
    by blast
  moreover from b connect_exhausted_or_connected [of 3 second_try Metrics0]
  have "get_database_connection second_try 3 Metrics0 =
     (Some example_conn,
      Metrics0\<lparr>db_connection_attempts := db_connection_attempts Metrics0 + 1\<rparr>, 1 + 1)"
    by blast
  ultimately show ?thesis by (simp add: Metrics0_def)
qed

text \<open>
  \<^bold>\<open>C10\<close>: with \<open>max_retries\<close> zero or negative the call makes no connection attempt
  (the count of \<^verbatim>\<open>pyodbc.connect\<close> calls is 0), still raises \<open>db_connection_attempts\<close> by
  exactly 1, changes nothing else in the metrics, and returns \<^verbatim>\<open>None\<close>.
\<close>

theorem connect_without_attempts:
  "max_retries \<le> 0 \<Longrightarrow>
     get_database_connection pyodbc_connect max_retries m =
       (None, m\<lparr>db_connection_attempts := db_connection_attempts m + 1\<rparr>, 0)"
  by (simp add: get_database_connection_def connect_attempts_none)

theorem connect_without_attempts_witness:
  "(0::int) \<le> 0 \<and>
   get_database_connection always_connect 0 Metrics0 =
     (None, Metrics0\<lparr>db_connection_attempts := 1\<rparr>, 0) \<and>
   db_connection_failures (fst (snd (get_database_connection always_connect (- 2) Metrics0))) = 0"
  using connect_without_attempts [of 0 always_connect Metrics0]
    connect_without_attempts [of "- 2" always_connect Metrics0]
  by (simp add: Metrics0_def)

section \<open>Health check\<close>

lemma health_check_true:
  "k < 3 \<Longrightarrow> pyodbc_connect k = Some conn \<Longrightarrow> (\<forall>i<k. pyodbc_connect i = None) \<Longrightarrow>
   select_one_ok conn \<Longrightarrow>
     health_check pyodbc_connect now m =
       (Some True, m\<lparr>db_connection_attempts := db_connection_attempts m + 1,
                     last_successful_check := Some now\<rparr>)"
  unfolding health_check_def get_database_connection_def
  by (subst connect_attempts_succeeds_at[where k = k and c = conn]) simp_all

lemma health_check_false:
  "k < 3 \<Longrightarrow> pyodbc_connect k = Some conn \<Longrightarrow> (\<forall>i<k. pyodbc_connect i = None) \<Longrightarrow>
   \<not> select_one_ok conn \<Longrightarrow>
     health_check pyodbc_connect now m =
       (Some False, m\<lparr>db_connection_attempts := db_connection_attempts m + 1\<rparr>)"
  unfolding health_check_def get_database_connection_def
  by (subst connect_attempts_succeeds_at[where k = k and c = conn]) simp_all

text \<open>
  \<^bold>\<open>C3\<close>: when every attempt to open the connection fails, \<^verbatim>\<open>health_check\<close> propagates
  no error, but the value it returns is \<^verbatim>\<open>None\<close> and not the boolean \<^verbatim>\<open>False\<close>: the
  function ends without a \<^verbatim>\<open>return\<close> when \<^verbatim>\<open>conn\<close> is \<^verbatim>\<open>None\<close>. (A failing round-trip
  query does return \<^verbatim>\<open>False\<close>, and a passing check returns \<^verbatim>\<open>True\<close> and sets
  \<open>last_successful_check\<close>: lemmas \<open>health_check_false\<close> and \<open>health_check_true\<close>.)
\<close>

theorem health_check_none_when_unreachable:
  "health_check never_connect now m =
     (None, m\<lparr>db_connection_attempts := db_connection_attempts m + 1,
              db_connection_failures := db_connection_failures m + 1\<rparr>)
   \<and> fst (health_check never_connect now m) \<noteq> Some False"
proof -
  have "connect_attempts never_connect 3 0
          (m\<lparr>db_connection_attempts := db_connection_attempts m + 1\<rparr>) =
        (None, m\<lparr>db_connection_attempts := db_connection_attempts m + 1,
              db_connection_failures := db_connection_failures m + 1\<rparr>, nat 3)"
    by (subst connect_attempts_all_fail) (simp_all add: never_connect_def)
  then show ?thesis
    by (simp add: health_check_def get_database_connection_def)
qed

section \<open>The retry loop of the notification send\<close>

lemma send_attempts_none:
  "\<not> int a < mr \<Longrightarrow> send_attempts f mr a m = (Returns None, m, a)"
  by (subst send_attempts.simps) simp

lemma send_attempts_all_api_errors:
  "int a < mr \<Longrightarrow> (\<forall>i. a \<le> i \<and> int i < mr \<longrightarrow> f i = SlackApiError) \<Longrightarrow>
     send_attempts f mr a m =
       (Returns (Some False), m\<lparr>failed_notifications := failed_notifications m + 1\<rparr>, nat mr)"
proof (induction f mr a m rule: send_attempts.induct)
  case (1 f mr a m)
  have n: "f a = SlackApiError" using "1.prems" by simp
  show ?case
  proof (cases "int a < mr - 1")
    case True
    have "send_attempts f mr (a + 1) m =
        (Returns (Some False), m\<lparr>failed_notifications := failed_notifications m + 1\<rparr>, nat mr)"
      using "1.IH"[OF "1.prems"(1) n True] True "1.prems"(2) by auto
    then show ?thesis using "1.prems"(1) n True by (subst send_attempts.simps) simp
  next
    case False
    then have "a + 1 = nat mr" using "1.prems"(1) by linarith
    then show ?thesis using "1.prems"(1) n False by (subst send_attempts.simps) simp
  qed
qed

lemma send_attempts_ends_at:
  "a \<le> k \<Longrightarrow> int k < mr \<Longrightarrow> f k \<noteq> SlackApiError \<Longrightarrow>
   (\<forall>i. a \<le> i \<and> i < k \<longrightarrow> f i = SlackApiError) \<Longrightarrow>
     send_attempts f mr a m =
       (case f k of
          Posted \<Rightarrow>
            (Returns (Some True), m\<lparr>notifications_sent := notifications_sent m + 1\<rparr>, k + 1)
        | _ \<Rightarrow> (Raises, m, k + 1))"
proof (induction f mr a m rule: send_attempts.induct)
  case (1 f mr a m)
  show ?case
  proof (cases "a = k")
    case True
    then show ?thesis using "1.prems"
      by (subst send_attempts.simps) (simp split: post_outcome.splits)
  next
    case False
    then have lt: "a < k" using "1.prems"(1) by simp
    then have n: "f a = SlackApiError" using "1.prems"(4) by simp
    have b: "int a < mr" "int a < mr - 1" using lt "1.prems"(2) by auto
    have "send_attempts f mr (a + 1) m =
       (case f k of
          Posted \<Rightarrow>
            (Returns (Some True), m\<lparr>notifications_sent := notifications_sent m + 1\<rparr>, k + 1)
        | _ \<Rightarrow> (Raises, m, k + 1))"
      using "1.IH"[OF b(1) n b(2)] lt "1.prems" by auto
    then show ?thesis using b n by (subst send_attempts.simps) simp
  qed
qed

text \<open>What the send does when every failure is a \<^verbatim>\<open>SlackApiError\<close>.\<close>

lemma send_counts_api_failure:
  "0 < max_retries \<Longrightarrow> (\<forall>i. int i < max_retries \<longrightarrow> chat_postMessage i = SlackApiError) \<Longrightarrow>
     send_slack_notification chat_postMessage max_retries m =
       (Returns (Some False), m\<lparr>failed_notifications := failed_notifications m + 1\<rparr>,
        nat max_retries)"
  unfolding send_slack_notification_def by (subst send_attempts_all_api_errors) simp_all

lemma send_counts_success:
  "int k < max_retries \<Longrightarrow> chat_postMessage k = Posted \<Longrightarrow>
   (\<forall>i<k. chat_postMessage i = SlackApiError) \<Longrightarrow>
     send_slack_notification chat_postMessage max_retries m =
       (Returns (Some True), m\<lparr>notifications_sent := notifications_sent m + 1\<rparr>, k + 1)"
  unfolding send_slack_notification_def
  by (subst send_attempts_ends_at[where k = k]) simp_all

lemma send_without_attempts:
  "max_retries \<le> 0 \<Longrightarrow>
     send_slack_notification chat_postMessage max_retries m = (Returns None, m, 0)"
  by (simp add: send_slack_notification_def send_attempts_none)

lemma send_counts_api_failure_example:
  "send_slack_notification always_api_error 3 Metrics0 =
     (Returns (Some False), Metrics0\<lparr>failed_notifications := 1\<rparr>, 3)"
  using send_counts_api_failure [of 3 always_api_error Metrics0]
  by (simp add: always_api_error_def Metrics0_def)

lemma send_counts_success_example:
  "send_slack_notification posted_on_third 3 Metrics0 =
     (Returns (Some True), Metrics0\<lparr>notifications_sent := 1\<rparr>, 3)"
  using send_counts_success [of 2 3 posted_on_third Metrics0]
  by (simp add: posted_on_third_def Metrics0_def)

text \<open>
  \<^bold>\<open>C2\<close>: a send whose three attempts all fail, the first two with \<^verbatim>\<open>SlackApiError\<close>
  and the third with an exception of another class, makes all three calls and ends with
  that exception; \<open>failed_notifications\<close> (like every other counter) is left as it was,
  where the claim has it raised by 1.
\<close>

theorem send_failure_not_counted:
  "send_slack_notification api_errors_then_other 3 m = (Raises, m, 3)
   \<and> api_errors_then_other 0 = SlackApiError
   \<and> api_errors_then_other 1 = SlackApiError
   \<and> api_errors_then_other 2 = OtherException
   \<and> failed_notifications (fst (snd (send_slack_notification api_errors_then_other 3 m)))
       \<noteq> failed_notifications m + 1"
proof -
  have "send_attempts api_errors_then_other 3 0 m =
     (case api_errors_then_other 2 of
          Posted \<Rightarrow>
            (Returns (Some True), m\<lparr>notifications_sent := notifications_sent m + 1\<rparr>, 2 + 1)
        | _ \<Rightarrow> (Raises, m, 2 + 1))"
    by (rule send_attempts_ends_at) (simp_all add: api_errors_then_other_def)
  then have "send_slack_notification api_errors_then_other 3 m = (Raises, m, 3)"
    by (simp add: send_slack_notification_def api_errors_then_other_def)
  then show ?thesis by (simp add: api_errors_then_other_def)
qed

text \<open>
  \<^bold>\<open>C8\<close>: when \<^verbatim>\<open>chat_postMessage\<close> raises an exception that is not a
  \<^verbatim>\<open>SlackApiError\<close>, the send makes one call, does not retry, counts nothing and ends
  with that exception instead of returning a boolean.
\<close>

theorem send_exception_escapes:
  "send_slack_notification transport_down 3 m = (Raises, m, 1)"
proof -
  have "send_attempts transport_down 3 0 m =
     (case transport_down 0 of
          Posted \<Rightarrow>
            (Returns (Some True), m\<lparr>notifications_sent := notifications_sent m + 1\<rparr>, 0 + 1)
        | _ \<Rightarrow> (Raises, m, 0 + 1))"
    by (rule send_attempts_ends_at) (simp_all add: transport_down_def)
  then show ?thesis by (simp add: send_slack_notification_def transport_down_def)
qed

section \<open>Fetching events\<close>

lemma get_database_connection_map:
  "get_database_connection (\<lambda>i. map_option f (pc i)) mr m =
     (case get_database_connection pc mr m of (r, m', t) \<Rightarrow> (map_option f r, m', t))"
  by (simp add: get_database_connection_def connect_attempts_map)

lemma get_database_connection_from_script:
  "get_database_connection pc mr m = (Some c, m', t) \<Longrightarrow> \<exists>i. pc i = Some c"
  unfolding get_database_connection_def by (rule connect_attempts_result_from_script)

lemma try_block_failed_fetch:
  assumes "\<forall>i c. db_connect e i = Some c \<longrightarrow> run_query c (last_check st) = None"
  shows "try_block (e\<lparr>db_connect := (\<lambda>i. map_option (\<lambda>c. c\<lparr>run_query := \<lambda>b. Some []\<rparr>) (db_connect e i))\<rparr>) st
         = try_block e st"
proof -
  obtain h m1 where hc: "health_check (hc_connect e) (hc_now e)
      (metrics (if signal_in_work e then signal_handler st else st)) = (h, m1)"
    by (cases "health_check (hc_connect e) (hc_now e)
      (metrics (if signal_in_work e then signal_handler st else st))")
  obtain r m2 t where gc: "get_database_connection (db_connect e) 3 m1 = (r, m2, t)"
    by (cases "get_database_connection (db_connect e) 3 m1")
  show ?thesis
  proof (cases r)
    case None
    then show ?thesis using hc gc
      by (simp add: try_block_def Let_def get_database_connection_map)
  next
    case (Some c)
    with gc obtain i where "db_connect e i = Some c"
      using get_database_connection_from_script by blast
    with assms have "run_query c (last_check st) = None" by blast
    then have "fetch_offline_events c (last_check st) = []"
      and "fetch_offline_events (c\<lparr>run_query := \<lambda>b. Some []\<rparr>) (last_check st) = []"
      by (simp_all add: fetch_offline_events_def)
    then show ?thesis using hc gc Some
      by (simp add: try_block_def Let_def get_database_connection_map log_event_def
          signal_handler_def)
  qed
qed

text \<open>
  \<^bold>\<open>C6\<close>: when executing the query fails, \<^verbatim>\<open>fetch_offline_events\<close> returns the empty
  list (its result is a list in every case: no error reaches the caller), which is also
  what it returns on a cursor whose query yields no rows; and a loop cycle in which the
  query fails on every connection the cycle can obtain ends in the same state, after the
  same calls, as the cycle in which those connections' queries return no rows.
\<close>

theorem failed_fetch_is_empty_fetch:
  "(run_query cursor bound = None \<longrightarrow>
      fetch_offline_events cursor bound = [] \<and>
      fetch_offline_events cursor bound =
        fetch_offline_events (cursor\<lparr>run_query := \<lambda>b. Some []\<rparr>) bound)
   \<and> ((\<forall>i c. db_connect e i = Some c \<longrightarrow> run_query c (last_check st) = None) \<longrightarrow>
      poll_cycle e st =
        poll_cycle
          (e\<lparr>db_connect := (\<lambda>i. map_option (\<lambda>c. c\<lparr>run_query := \<lambda>b. Some []\<rparr>) (db_connect e i))\<rparr>) st)"
  by (simp add: fetch_offline_events_def poll_cycle_def try_block_failed_fetch)

theorem failed_fetch_is_empty_fetch_witness:
  "run_query broken_query_conn 100 = None \<and>
   fetch_offline_events broken_query_conn 100 = [] \<and>
   poll_cycle broken_query_cycle example_state =
     poll_cycle
       (broken_query_cycle\<lparr>db_connect :=
          (\<lambda>i. map_option (\<lambda>c. c\<lparr>run_query := \<lambda>b. Some []\<rparr>)
                 (db_connect broken_query_cycle i))\<rparr>)
       example_state"
proof -
  have a: "run_query broken_query_conn 100 = None"
    by (simp add: broken_query_conn_def)
  have b: "\<forall>i c. db_connect broken_query_cycle i = Some c \<longrightarrow>
             run_query c (last_check example_state) = None"
    by (auto simp: broken_query_cycle_def broken_query_conn_def)
  from a b failed_fetch_is_empty_fetch [of broken_query_conn 100 broken_query_cycle example_state]
  show ?thesis by blast
qed

section \<open>The watermark\<close>

lemma submit_rows_eq:
  "submit_rows rows mx st =
     (Max (insert mx (log_datetime ` set rows)), st\<lparr>events := events st @ map Submit rows\<rparr>)"
proof (induction rows arbitrary: mx st)
  case Nil
  then show ?case by simp
next
  case (Cons r rows)
  have "Max (insert (if mx < log_datetime r then log_datetime r else mx) (log_datetime ` set rows))
        = Max (insert mx (insert (log_datetime r) (log_datetime ` set rows)))"
  proof (cases "rows = []")
    case True
    then show ?thesis by (simp add: max_def)
  next
    case False
    then show ?thesis by (auto simp: max_def)
  qed
  then show ?case using Cons.IH by (simp add: log_event_def)
qed

text \<open>
  One pass of the \<^verbatim>\<open>try\<close> block extends the log; either it makes no fetch and leaves the
  watermark alone, or it makes exactly one fetch, bound to the old watermark, and the new
  watermark is the largest of the old one and the timestamps fetched.
\<close>

lemma try_block_shape:
  "\<exists>evs. events (try_block e st) = events st @ evs \<and>
     ((\<forall>b rows. Fetch b rows \<notin> set evs) \<and> last_check (try_block e st) = last_check st
      \<or> (\<exists>rows. (\<forall>b rows'. Fetch b rows' \<in> set evs \<longrightarrow> b = last_check st \<and> rows' = rows) \<and>
            Fetch (last_check st) rows \<in> set evs \<and>
            last_check (try_block e st) = Max (insert (last_check st) (log_datetime ` set rows))))"
  unfolding try_block_def
  by (auto simp: Let_def log_event_def time_sleep_def signal_handler_def save_metrics_def
        submit_rows_eq
      split: prod.splits option.splits)

lemma cycle_events_try_block:
  "events (try_block e st) = events st @ evs \<Longrightarrow> cycle_events e st = evs @ [Sleep]"
  by (simp add: cycle_events_def poll_cycle_def time_sleep_def log_event_def
      signal_handler_def Let_def)

lemma last_check_poll_cycle: "last_check (poll_cycle e st) = last_check (try_block e st)"
  by (simp add: poll_cycle_def time_sleep_def log_event_def signal_handler_def Let_def)

lemma fetch_bound:
  assumes "Fetch b rows \<in> set (cycle_events e st)"
  shows "b = last_check st \<and>
         last_check (poll_cycle e st) = Max (insert (last_check st) (log_datetime ` set rows))"
proof -
  obtain evs where evs: "events (try_block e st) = events st @ evs"
     and c: "((\<forall>b rows. Fetch b rows \<notin> set evs) \<and> last_check (try_block e st) = last_check st
      \<or> (\<exists>rows. (\<forall>b rows'. Fetch b rows' \<in> set evs \<longrightarrow> b = last_check st \<and> rows' = rows) \<and>
            Fetch (last_check st) rows \<in> set evs \<and>
            last_check (try_block e st) = Max (insert (last_check st) (log_datetime ` set rows))))"
    using try_block_shape by blast
  have f: "Fetch b rows \<in> set evs" using assms cycle_events_try_block[OF evs] by simp
  from c show ?thesis
  proof
    assume "(\<forall>b rows. Fetch b rows \<notin> set evs) \<and> last_check (try_block e st) = last_check st"
    with f show ?thesis by blast
  next
    assume "\<exists>rows. (\<forall>b rows'. Fetch b rows' \<in> set evs \<longrightarrow> b = last_check st \<and> rows' = rows) \<and>
            Fetch (last_check st) rows \<in> set evs \<and>
            last_check (try_block e st) = Max (insert (last_check st) (log_datetime ` set rows))"
    then obtain rs where u: "\<forall>b rows'. Fetch b rows' \<in> set evs \<longrightarrow> b = last_check st \<and> rows' = rs"
      and m: "last_check (try_block e st) = Max (insert (last_check st) (log_datetime ` set rs))"
      by blast
    from u f have "b = last_check st" "rows = rs" by blast+
    with m show ?thesis by (simp add: last_check_poll_cycle)
  qed
qed

lemma no_fetch_unchanged:
  assumes "\<forall>b rows. Fetch b rows \<notin> set (cycle_events e st)"
  shows "last_check (poll_cycle e st) = last_check st"
proof -
  obtain evs where evs: "events (try_block e st) = events st @ evs"
     and c: "((\<forall>b rows. Fetch b rows \<notin> set evs) \<and> last_check (try_block e st) = last_check st
      \<or> (\<exists>rows. (\<forall>b rows'. Fetch b rows' \<in> set evs \<longrightarrow> b = last_check st \<and> rows' = rows) \<and>
            Fetch (last_check st) rows \<in> set evs \<and>
            last_check (try_block e st) = Max (insert (last_check st) (log_datetime ` set rows))))"
    using try_block_shape by blast
  have f: "\<forall>b rows. Fetch b rows \<notin> set evs" using assms cycle_events_try_block[OF evs] by simp
  from c show ?thesis
  proof
    assume "(\<forall>b rows. Fetch b rows \<notin> set evs) \<and> last_check (try_block e st) = last_check st"
    then show ?thesis by (simp add: last_check_poll_cycle)
  next
    assume "\<exists>rows. (\<forall>b rows'. Fetch b rows' \<in> set evs \<longrightarrow> b = last_check st \<and> rows' = rows) \<and>
            Fetch (last_check st) rows \<in> set evs \<and>
            last_check (try_block e st) = Max (insert (last_check st) (log_datetime ` set rows))"
    with f show ?thesis by blast
  qed
qed

lemma poll_cycle_mono: "last_check st \<le> last_check (poll_cycle e st)"
proof (cases "\<forall>b rows. Fetch b rows \<notin> set (cycle_events e st)")
  case True
  then show ?thesis by (simp add: no_fetch_unchanged)
next
  case False
  then obtain b rows where "Fetch b rows \<in> set (cycle_events e st)" by blast
  then have "last_check (poll_cycle e st) = Max (insert (last_check st) (log_datetime ` set rows))"
    by (simp add: fetch_bound)
  then show ?thesis by simp
qed

lemma fold_poll_cycle_mono: "last_check st \<le> last_check (fold poll_cycle es st)"
proof (induction es arbitrary: st)
  case Nil
  then show ?case by simp
next
  case (Cons e es)
  have "last_check st \<le> last_check (poll_cycle e st)" by (rule poll_cycle_mono)
  also have "\<dots> \<le> last_check (fold poll_cycle es (poll_cycle e st))" by (rule Cons.IH)
  finally show ?case by simp
qed

lemma monitor_loop_mono: "monitor_loop es st = Some st' \<Longrightarrow> last_check st \<le> last_check st'"
proof (induction es arbitrary: st)
  case Nil
  then show ?case by (simp split: if_splits)
next
  case (Cons e es)
  show ?case
  proof (cases "shutdown_flag st")
    case True
    with Cons.prems show ?thesis by simp
  next
    case False
    with Cons.prems have "monitor_loop es (poll_cycle e st) = Some st'" by simp
    then have "last_check (poll_cycle e st) \<le> last_check st'" by (rule Cons.IH)
    with poll_cycle_mono[of st e] show ?thesis by linarith
  qed
qed

text \<open>
  \<^bold>\<open>C1\<close>: over every sequence of cycles the watermark never decreases (after any number
  of cycles \<open>es\<close>, and at the exit of the loop); the fetch of a cycle is bound to the
  watermark the cycle starts with; when cycle \<open>n\<close> (\<open>e\<close>, from state \<open>st\<close>) fetched \<open>rows\<close>
  with bound \<open>b\<close>, the fetch of cycle \<open>n+1\<close> (\<open>e'\<close>) is bound to the largest of \<open>b\<close> and the
  timestamps of \<open>rows\<close>, which is \<open>b\<close> itself when \<open>rows\<close> is empty; and when cycle \<open>n\<close> made
  no fetch (it was skipped), the fetch of cycle \<open>n+1\<close> is bound to the unchanged
  watermark.
\<close>

theorem watermark_non_decreasing:
  "last_check st \<le> last_check (fold poll_cycle es st)
   \<and> (\<forall>st'. monitor_loop es st = Some st' \<longrightarrow> last_check st \<le> last_check st')
   \<and> (\<forall>b rows b' rows'.
         Fetch b rows \<in> set (cycle_events e st) \<and>
         Fetch b' rows' \<in> set (cycle_events e' (poll_cycle e st))
         \<longrightarrow> b = last_check st \<and> b' = Max (insert b (log_datetime ` set rows)))
   \<and> (\<forall>b' rows'.
         (\<forall>b rows. Fetch b rows \<notin> set (cycle_events e st)) \<and>
         Fetch b' rows' \<in> set (cycle_events e' (poll_cycle e st))
         \<longrightarrow> b' = last_check st)"
proof (intro conjI allI impI)
  show "last_check st \<le> last_check (fold poll_cycle es st)" by (rule fold_poll_cycle_mono)
next
  fix st' assume "monitor_loop es st = Some st'"
  then show "last_check st \<le> last_check st'" by (rule monitor_loop_mono)
next
  fix b rows b' rows'
  assume a: "Fetch b rows \<in> set (cycle_events e st) \<and>
             Fetch b' rows' \<in> set (cycle_events e' (poll_cycle e st))"
  then show "b = last_check st" using fetch_bound[of b rows e st] by simp
next
  fix b rows b' rows'
  assume a: "Fetch b rows \<in> set (cycle_events e st) \<and>
             Fetch b' rows' \<in> set (cycle_events e' (poll_cycle e st))"
  then have 1: "b = last_check st"
    "last_check (poll_cycle e st) = Max (insert (last_check st) (log_datetime ` set rows))"
    using fetch_bound[of b rows e st] by simp_all
  from a have "b' = last_check (poll_cycle e st)"
    using fetch_bound[of b' rows' e' "poll_cycle e st"] by simp
  with 1 show "b' = Max (insert b (log_datetime ` set rows))" by simp
next
  fix b' rows'
  assume a: "(\<forall>b rows. Fetch b rows \<notin> set (cycle_events e st)) \<and>
             Fetch b' rows' \<in> set (cycle_events e' (poll_cycle e st))"
  then have 1: "last_check (poll_cycle e st) = last_check st"
    using no_fetch_unchanged[of e st] by simp
  from a have "b' = last_check (poll_cycle e st)"
    using fetch_bound[of b' rows' e' "poll_cycle e st"] by simp
  with 1 show "b' = last_check st" by simp
qed

text \<open>The example cycles, evaluated.\<close>

lemmas cycle_eval =
  poll_cycle_def try_block_def health_check_def get_database_connection_def
  connect_attempts.simps fetch_offline_events_def time_sleep_def log_event_def
  save_metrics_def signal_handler_def truthy_def Let_def
  example_cycle_def down_cycle_def example_conn_def example_row_def
  always_connect_def never_connect_def Metrics0_def

lemma example_state_first_cycle:
  "poll_cycle (example_cycle sig) example_state =
     \<lparr>last_check = 200,
      metrics = Metrics0\<lparr>db_connection_attempts := 2, last_successful_check := Some 1000\<rparr>,
      shutdown_flag = sig,
      events = [HealthCheck, Connect, Fetch 100 [example_row 200, example_row 150],
                Submit (example_row 200), Submit (example_row 150), SaveMetrics, Sleep]\<rparr>"
  by (simp add: cycle_eval example_state_def)

lemma example_state_second_cycle:
  "poll_cycle (example_cycle False) (poll_cycle (example_cycle False) example_state) =
     \<lparr>last_check = 200,
      metrics = Metrics0\<lparr>db_connection_attempts := 4, last_successful_check := Some 1000\<rparr>,
      shutdown_flag = False,
      events = [HealthCheck, Connect, Fetch 100 [example_row 200, example_row 150],
                Submit (example_row 200), Submit (example_row 150), SaveMetrics, Sleep,
                HealthCheck, Connect, Fetch 200 [], SaveMetrics, Sleep]\<rparr>"
  by (simp add: example_state_first_cycle) (simp add: cycle_eval)

lemma example_state_down_cycle:
  "poll_cycle (down_cycle sig) example_state =
     \<lparr>last_check = 100,
      metrics = Metrics0\<lparr>db_connection_attempts := 1, db_connection_failures := 1\<rparr>,
      shutdown_flag = sig,
      events = [HealthCheck, Sleep, Sleep]\<rparr>"
  by (simp add: cycle_eval example_state_def)

lemma example_state_after_down_cycle:
  "poll_cycle (example_cycle False) (poll_cycle (down_cycle False) example_state) =
     \<lparr>last_check = 200,
      metrics = Metrics0\<lparr>db_connection_attempts := 3, db_connection_failures := 1,
                  last_successful_check := Some 1000\<rparr>,
      shutdown_flag = False,
      events = [HealthCheck, Sleep, Sleep,
                HealthCheck, Connect, Fetch 100 [example_row 200, example_row 150],
                Submit (example_row 200), Submit (example_row 150), SaveMetrics, Sleep]\<rparr>"
  by (simp add: example_state_down_cycle) (simp add: cycle_eval)

theorem watermark_non_decreasing_witness:
  "Fetch 100 [example_row 200, example_row 150]
     \<in> set (cycle_events (example_cycle False) example_state)
   \<and> Fetch 200 []
     \<in> set (cycle_events (example_cycle False) (poll_cycle (example_cycle False) example_state))
   \<and> (200::int) = Max (insert 100 (log_datetime ` set [example_row 200, example_row 150]))
   \<and> Fetch 100 [example_row 200, example_row 150]
     \<in> set (cycle_events (example_cycle False) (poll_cycle (down_cycle False) example_state))
   \<and> 100 = last_check example_state
   \<and> monitor_loop [example_cycle True] example_state
       = Some (poll_cycle (example_cycle True) example_state)
   \<and> last_check example_state \<le> last_check (poll_cycle (example_cycle True) example_state)"
proof -
  have f1: "Fetch 100 [example_row 200, example_row 150]
     \<in> set (cycle_events (example_cycle False) example_state)"
    by (simp add: cycle_events_def example_state_first_cycle) (simp add: example_state_def)
  have f2: "Fetch 200 []
     \<in> set (cycle_events (example_cycle False) (poll_cycle (example_cycle False) example_state))"
    by (simp add: cycle_events_def example_state_second_cycle)
       (simp add: example_state_first_cycle)
  have n1: "\<forall>b rows. Fetch b rows \<notin> set (cycle_events (down_cycle False) example_state)"
    by (simp add: cycle_events_def example_state_down_cycle) (simp add: example_state_def)
  have f3: "Fetch 100 [example_row 200, example_row 150]
     \<in> set (cycle_events (example_cycle False) (poll_cycle (down_cycle False) example_state))"
    by (simp add: cycle_events_def example_state_after_down_cycle)
       (simp add: example_state_down_cycle)
  have l: "monitor_loop [example_cycle True] example_state
       = Some (poll_cycle (example_cycle True) example_state)"
    by (simp add: example_state_first_cycle) (simp add: example_state_def)
  from f1 f2
    watermark_non_decreasing [of example_state "[]" "example_cycle False" "example_cycle False"]
  have "(200::int) = Max (insert 100 (log_datetime ` set [example_row 200, example_row 150]))"
    by blast
  moreover from n1 f3
    watermark_non_decreasing [of example_state "[]" "down_cycle False" "example_cycle False"]
  have "100 = last_check example_state"
    by blast
  moreover from l
    watermark_non_decreasing [of example_state "[example_cycle True]" "down_cycle False" "down_cycle False"]
  have "last_check example_state \<le> last_check (poll_cycle (example_cycle True) example_state)"
    by blast
  ultimately show ?thesis using f1 f2 f3 l by blast
qed

section \<open>Shutdown\<close>

lemma try_block_flag: "shutdown_flag st \<Longrightarrow> shutdown_flag (try_block e st)"
  unfolding try_block_def
  by (auto simp: Let_def log_event_def time_sleep_def signal_handler_def save_metrics_def
        submit_rows_eq
      split: prod.splits option.splits)

lemma poll_cycle_flag: "shutdown_flag st \<Longrightarrow> shutdown_flag (poll_cycle e st)"
  by (simp add: poll_cycle_def time_sleep_def log_event_def signal_handler_def Let_def
      try_block_flag)

lemma poll_cycle_signal: "signal_in_sleep e \<Longrightarrow> shutdown_flag (poll_cycle e st)"
  by (simp add: poll_cycle_def time_sleep_def log_event_def signal_handler_def Let_def)

lemma poll_cycle_last: "last (events (poll_cycle e st)) = Sleep"
  by (simp add: poll_cycle_def time_sleep_def log_event_def signal_handler_def Let_def)

lemma fold_poll_cycle_flag: "shutdown_flag st \<Longrightarrow> shutdown_flag (fold poll_cycle es st)"
  by (induction es arbitrary: st) (simp_all add: poll_cycle_flag)

lemma monitor_loop_prefix:
  "\<not> shutdown_flag (fold poll_cycle es st) \<Longrightarrow>
     monitor_loop (es @ rest) st = monitor_loop rest (fold poll_cycle es st)"
proof (induction es arbitrary: st)
  case Nil
  then show ?case by simp
next
  case (Cons c cs)
  have "\<not> shutdown_flag st"
  proof
    assume "shutdown_flag st"
    then have "shutdown_flag (fold poll_cycle (c # cs) st)" by (rule fold_poll_cycle_flag)
    with Cons.prems show False by simp
  qed
  moreover have "monitor_loop (cs @ rest) (poll_cycle c st) =
      monitor_loop rest (fold poll_cycle cs (poll_cycle c st))"
    using Cons.prems by (intro Cons.IH) simp
  ultimately show ?case by simp
qed

lemma monitor_loop_exits:
  assumes "\<not> shutdown_flag st" and "shutdown_flag (poll_cycle e st)"
  shows "monitor_loop (e # rest) st = Some (poll_cycle e st)"
  using assms by (cases rest) simp_all

text \<open>
  The sleep that precedes a \<^verbatim>\<open>continue\<close> is the only sleep of the \<^verbatim>\<open>try\<close> block; a
  signal that arrives during it sets the flag.
\<close>

lemma try_block_skip_sleep:
  "\<exists>evs. events (try_block e st) = events st @ evs \<and>
     (Sleep \<in> set evs \<and> signal_in_skip_sleep e \<longrightarrow> shutdown_flag (try_block e st))"
  unfolding try_block_def
  by (auto simp: Let_def log_event_def time_sleep_def signal_handler_def save_metrics_def
        submit_rows_eq
      split: prod.splits option.splits)

lemma poll_cycle_sleep_signal:
  assumes "signal_in_sleep e
           \<or> signal_in_skip_sleep e \<and> Sleep \<in> set (butlast (cycle_events e st))"
  shows "shutdown_flag (poll_cycle e st)"
  using assms
proof
  assume "signal_in_sleep e"
  then show ?thesis by (rule poll_cycle_signal)
next
  assume a: "signal_in_skip_sleep e \<and> Sleep \<in> set (butlast (cycle_events e st))"
  obtain evs where evs: "events (try_block e st) = events st @ evs"
    and imp: "Sleep \<in> set evs \<and> signal_in_skip_sleep e \<longrightarrow> shutdown_flag (try_block e st)"
    using try_block_skip_sleep by blast
  have "butlast (cycle_events e st) = evs"
    using cycle_events_try_block[OF evs] by simp
  with a imp have "shutdown_flag (try_block e st)" by simp
  then show ?thesis
    by (simp add: poll_cycle_def time_sleep_def log_event_def signal_handler_def Let_def)
qed

text \<open>
  \<^bold>\<open>C7\<close>: let the process start up, pass its initial health check and enter the loop in
  state \<open>st0\<close>; let the cycles \<open>es\<close> run with the shutdown flag still unset after them, and
  let a termination signal arrive while the next cycle \<open>e\<close> sleeps: during the sleep of
  its \<^verbatim>\<open>finally\<close> block, which ends every cycle, or during the sleep that precedes its
  \<^verbatim>\<open>continue\<close>, if the cycle makes that sleep. Then \<^verbatim>\<open>main\<close> terminates, whatever cycles
  \<open>rest\<close> the world had in store, and the calls it has made are those of the cycles \<open>es\<close>
  and \<open>e\<close>, the last of which is a sleep, followed only by the shutdown of the pool and
  the final \<^verbatim>\<open>save_metrics()\<close>: no health check is started after the sleep.
\<close>

theorem shutdown_in_sleep_exits:
  assumes "startup_ok env"
    and "truthy (fst (health_check (main_connect env) (main_now env) Metrics0))"
    and "cycles env = es @ e # rest"
    and "st0 = \<lparr>last_check = monitor_now env - one_minute,
                metrics = snd (health_check (main_connect env) (main_now env) Metrics0),
                shutdown_flag = signal_at_startup env, events = [HealthCheck]\<rparr>"
    and "\<not> shutdown_flag (fold poll_cycle es st0)"
    and "signal_in_sleep e
         \<or> signal_in_skip_sleep e
           \<and> Sleep \<in> set (butlast (cycle_events e (fold poll_cycle es st0)))"
  shows "main env =
           Some (events (poll_cycle e (fold poll_cycle es st0)) @ [PoolShutdown, SaveMetrics])
         \<and> last (events (poll_cycle e (fold poll_cycle es st0))) = Sleep"
proof -
  let ?st = "fold poll_cycle es st0"
  have "monitor_loop (cycles env) st0 = monitor_loop (e # rest) ?st"
    using assms(3,5) by (simp add: monitor_loop_prefix)
  also have "\<dots> = Some (poll_cycle e ?st)"
    using assms(5) poll_cycle_sleep_signal[OF assms(6)] by (rule monitor_loop_exits)
  finally have loop: "monitor_loop (cycles env) st0 = Some (poll_cycle e ?st)" .
  obtain h m1 where hc: "health_check (main_connect env) (main_now env) Metrics0 = (h, m1)"
    by (cases "health_check (main_connect env) (main_now env) Metrics0")
  have "main env = Some (events (poll_cycle e ?st) @ [PoolShutdown, SaveMetrics])"
    using assms(1,2,4) loop hc
    by (simp add: main_def monitor_swiper_offline_events_def save_metrics_def log_event_def)
  then show ?thesis by (simp add: poll_cycle_last)
qed

lemma example_health_check:
  "health_check always_connect 900 Metrics0 =
     (Some True, Metrics0\<lparr>db_connection_attempts := 1, last_successful_check := Some 900\<rparr>)"
  by (simp add: cycle_eval)

theorem shutdown_in_sleep_exits_witness:
  "main example_main =
     Some [HealthCheck,
           HealthCheck, Connect, Fetch 100 [example_row 200, example_row 150],
           Submit (example_row 200), Submit (example_row 150), SaveMetrics, Sleep,
           HealthCheck, Connect, Fetch 200 [], SaveMetrics, Sleep,
           PoolShutdown, SaveMetrics]
   \<and> main unreachable_main =
     Some [HealthCheck, HealthCheck, Sleep, Sleep, PoolShutdown, SaveMetrics]"
proof -
  let ?st0 = "\<lparr>last_check = monitor_now example_main - one_minute,
                metrics = snd (health_check (main_connect example_main)
                                 (main_now example_main) Metrics0),
                shutdown_flag = signal_at_startup example_main, events = [HealthCheck]\<rparr>"
  have st0: "?st0 = \<lparr>last_check = 100,
      metrics = Metrics0\<lparr>db_connection_attempts := 1, last_successful_check := Some 900\<rparr>,
      shutdown_flag = False, events = [HealthCheck]\<rparr>"
    by (simp add: example_main_def example_health_check one_minute_def)
  have c1: "fold poll_cycle [example_cycle False] ?st0 =
     \<lparr>last_check = 200,
      metrics = Metrics0\<lparr>db_connection_attempts := 3, last_successful_check := Some 1000\<rparr>,
      shutdown_flag = False,
      events = [HealthCheck, HealthCheck, Connect,
                Fetch 100 [example_row 200, example_row 150],
                Submit (example_row 200), Submit (example_row 150), SaveMetrics, Sleep]\<rparr>"
    by (simp add: st0) (simp add: cycle_eval)
  have c2: "events (poll_cycle (example_cycle True) (fold poll_cycle [example_cycle False] ?st0)) =
      [HealthCheck, HealthCheck, Connect, Fetch 100 [example_row 200, example_row 150],
       Submit (example_row 200), Submit (example_row 150), SaveMetrics, Sleep,
       HealthCheck, Connect, Fetch 200 [], SaveMetrics, Sleep]"
    by (simp only: c1) (simp add: cycle_eval)
  have h1: "startup_ok example_main" by (simp add: example_main_def)
  have h2: "truthy (fst (health_check (main_connect example_main) (main_now example_main)
                Metrics0))"
    by (simp add: example_main_def example_health_check truthy_def)
  have h3: "cycles example_main = [example_cycle False] @ example_cycle True # [example_cycle False]"
    by (simp add: example_main_def)
  have h5: "\<not> shutdown_flag (fold poll_cycle [example_cycle False] ?st0)"
    by (simp only: c1) simp
  have h6: "signal_in_sleep (example_cycle True)
     \<or> signal_in_skip_sleep (example_cycle True)
       \<and> Sleep \<in> set (butlast (cycle_events (example_cycle True)
                                  (fold poll_cycle [example_cycle False] ?st0)))"
    by (simp add: example_cycle_def)
  have first: "main example_main =
     Some [HealthCheck,
           HealthCheck, Connect, Fetch 100 [example_row 200, example_row 150],
           Submit (example_row 200), Submit (example_row 150), SaveMetrics, Sleep,
           HealthCheck, Connect, Fetch 200 [], SaveMetrics, Sleep,
           PoolShutdown, SaveMetrics]"
    using shutdown_in_sleep_exits [OF h1 h2 h3 refl h5 h6] by (simp only: c2) simp
  let ?u0 = "\<lparr>last_check = monitor_now unreachable_main - one_minute,
                metrics = snd (health_check (main_connect unreachable_main)
                                 (main_now unreachable_main) Metrics0),
                shutdown_flag = signal_at_startup unreachable_main, events = [HealthCheck]\<rparr>"
  have u0: "?u0 = \<lparr>last_check = 100,
      metrics = Metrics0\<lparr>db_connection_attempts := 1, last_successful_check := Some 900\<rparr>,
      shutdown_flag = False, events = [HealthCheck]\<rparr>"
    by (simp add: unreachable_main_def example_health_check one_minute_def)
  have d: "events (poll_cycle (down_cycle True) (fold poll_cycle [] ?u0)) =
      [HealthCheck, HealthCheck, Sleep, Sleep]"
    by (simp add: u0) (simp add: cycle_eval)
  have g1: "startup_ok unreachable_main" by (simp add: unreachable_main_def)
  have g2: "truthy (fst (health_check (main_connect unreachable_main)
                (main_now unreachable_main) Metrics0))"
    by (simp add: unreachable_main_def example_health_check truthy_def)
  have g3: "cycles unreachable_main = [] @ down_cycle True # [example_cycle False]"
    by (simp add: unreachable_main_def)
  have g5: "\<not> shutdown_flag (fold poll_cycle [] ?u0)"
    by (simp add: unreachable_main_def)
  have g6: "signal_in_sleep (down_cycle True)
     \<or> signal_in_skip_sleep (down_cycle True)
       \<and> Sleep \<in> set (butlast (cycle_events (down_cycle True) (fold poll_cycle [] ?u0)))"
    by (simp add: cycle_events_def u0) (simp add: cycle_eval)
  have second: "main unreachable_main =
     Some [HealthCheck, HealthCheck, Sleep, Sleep, PoolShutdown, SaveMetrics]"
    using shutdown_in_sleep_exits [OF g1 g2 g3 refl g5 g6] by (simp only: d) simp
  from first second show ?thesis by simp
qed

end
